theory Spec2Isabelle
  imports Complex_Main
begin

section \<open>Rows of the backing store\<close>

text \<open>
  The two row types of \<^verbatim>\<open>src/types/database.types.ts\<close>. A field keeps the name it has
  in the source behind a prefix (\<open>p_\<close> for a project, \<open>t_\<close> for a transaction), since
  both rows have an \<open>id\<close>. The TypeScript type \<open>number\<close> of the monetary fields is the
  type parameter \<open>'a\<close>: the aggregation only adds and subtracts amounts, so every
  definition below asks of \<open>'a\<close> no more than a zero, a \<open>+\<close> and a \<open>-\<close>, and a theorem
  names the laws of arithmetic it needs in the sort of \<open>'a\<close>.
\<close>

datatype transaction_type = Credit | Debit

record 'a project =
  p_id :: string
  p_user_id :: string
  p_name :: string
  p_location :: string
  p_project_type :: string
  p_base_contract_amount :: 'a
  p_created_at :: string
  p_updated_at :: string

record 'a transaction =
  t_id :: string
  t_project_id :: string
  t_type :: transaction_type
  t_amount :: 'a
  t_description :: string
  t_transaction_date :: string
  t_category :: string
  t_created_at :: string

section \<open>The dashboard snapshot\<close>

text \<open>The interfaces of \<^verbatim>\<open>src/hooks/useDashboardData.ts\<close>, lines 5 to 20.\<close>

record 'a ProjectSummary =
  projectId :: string
  projectName :: string
  totalCredits :: 'a
  totalDebits :: 'a
  profit :: 'a

record 'a DailyStat =
  date :: string
  credits :: 'a
  debits :: 'a

record 'a WeeklyStat =
  week :: string
  week_credits :: 'a
  week_debits :: 'a

record 'a MonthlyStat =
  month :: string
  month_credits :: 'a
  month_debits :: 'a

record 'a DashboardData =
  totalPortfolioBalance :: 'a
  totalProjects :: nat
  projectsSummary :: "'a ProjectSummary list"
  dailyStats :: "'a DailyStat list"
  weeklyStats :: "'a WeeklyStat list"
  monthlyStats :: "'a MonthlyStat list"

section \<open>The aggregation of fetchData\<close>

text \<open>
  \<^verbatim>\<open>xs.filter((t) => t.type === k).reduce((sum, t) => sum + Number(t.amount), 0)\<close>:
  a left fold from 0. \<open>t.amount\<close> has type \<open>number\<close>, on which \<open>Number\<close> is the identity.
\<close>

definition sumOfType :: "transaction_type \<Rightarrow> ('a::{zero,plus}) transaction list \<Rightarrow> 'a" where
  "sumOfType k xs = foldl (\<lambda>sum t. sum + t_amount t) 0 (filter (\<lambda>t. t_type t = k) xs)"

text \<open>
  \<^verbatim>\<open>transactions?.filter(pred) || []\<close>: the query's \<open>data\<close> may be \<open>null\<close>, which is
  \<open>None\<close> here and reads as the empty array.
\<close>

definition filterOrEmpty :: "('t \<Rightarrow> bool) \<Rightarrow> 't list option \<Rightarrow> 't list" where
  "filterOrEmpty pred transactions =
     (case transactions of None \<Rightarrow> [] | Some ts \<Rightarrow> filter pred ts)"

text \<open>Lines 72 to 92: one summary per project, by \<open>projects.map\<close>.\<close>

definition summaryOf ::
  "('a::{zero,plus,minus}) transaction list option \<Rightarrow> 'a project \<Rightarrow> 'a ProjectSummary" where
  "summaryOf transactions project =
     (let projectTransactions = filterOrEmpty (\<lambda>t. t_project_id t = p_id project) transactions;
          totalCredits = sumOfType Credit projectTransactions;
          totalDebits = sumOfType Debit projectTransactions
      in \<lparr> projectId = p_id project,
           projectName = p_name project,
           totalCredits = totalCredits,
           totalDebits = totalDebits,
           profit = totalCredits - totalDebits \<rparr>)"

definition projectsSummaryOf ::
  "('a::{zero,plus,minus}) project list \<Rightarrow> 'a transaction list option \<Rightarrow> 'a ProjectSummary list" where
  "projectsSummaryOf projects transactions = map (summaryOf transactions) projects"

text \<open>Lines 94 to 97: \<^verbatim>\<open>projectsSummary.reduce((sum, p) => sum + p.profit, 0)\<close>.\<close>

definition totalPortfolioBalanceOf :: "('a::{zero,plus}) ProjectSummary list \<Rightarrow> 'a" where
  "totalPortfolioBalanceOf summaries = foldl (\<lambda>sum p. sum + profit p) 0 summaries"

text \<open>Lines 106 to 120: one entry per generated date string, by \<open>last7Days.map\<close>.\<close>

definition dailyStatOf ::
  "('a::{zero,plus}) transaction list option \<Rightarrow> string \<Rightarrow> 'a DailyStat" where
  "dailyStatOf transactions d =
     (let dayTransactions = filterOrEmpty (\<lambda>t. t_transaction_date t = d) transactions;
          credits = sumOfType Credit dayTransactions;
          debits = sumOfType Debit dayTransactions
      in \<lparr> date = d, credits = credits, debits = debits \<rparr>)"

definition dailyStatsOf ::
  "string list \<Rightarrow> ('a::{zero,plus}) transaction list option \<Rightarrow> 'a DailyStat list" where
  "dailyStatsOf last7Days transactions = map (dailyStatOf transactions) last7Days"

section \<open>Dates of the host\<close>

text \<open>
  Lines 99 to 104 build the seven date strings with the host's \<open>Date\<close>:
  \<^verbatim>\<open>new Date(now)\<close>, \<^verbatim>\<open>getDate\<close>, \<^verbatim>\<open>setDate\<close> and \<^verbatim>\<open>toISOString\<close>. They are modelled
  after the abstract operations of the ECMAScript specification. A date holds a time
  value, the milliseconds since 1970-01-01T00:00:00Z, here an \<open>int\<close>; \<open>div\<close> and
  \<open>mod\<close> on \<open>int\<close> round down, as the specification's \<open>floor\<close> and \<open>modulo\<close> do. The
  clock reading \<open>now\<close> and the six days before it lie far inside the range of valid time
  values, so \<open>TimeClip\<close> is left out.
\<close>

definition msPerDay :: int where "msPerDay = 86400000"
definition msPerHour :: int where "msPerHour = 3600000"
definition msPerMinute :: int where "msPerMinute = 60000"
definition msPerSecond :: int where "msPerSecond = 1000"

definition Day :: "int \<Rightarrow> int" where
  "Day t = t div msPerDay"

definition TimeWithinDay :: "int \<Rightarrow> int" where
  "TimeWithinDay t = t mod msPerDay"

text \<open>
  The calendar of the ECMAScript specification: the day number of the first day of a
  year, the year of a time value (the largest \<open>y\<close> with \<open>DayFromYear y \<le> Day t\<close>, found
  from the mean length of a year and corrected by one year either way), the month
  (0 is January) and the day of the month by the table of the specification.
\<close>

definition DaysInYear :: "int \<Rightarrow> int" where
  "DaysInYear y =
     (if y mod 4 \<noteq> 0 then 365
      else if y mod 100 \<noteq> 0 then 366
      else if y mod 400 \<noteq> 0 then 365
      else 366)"

definition DayFromYear :: "int \<Rightarrow> int" where
  "DayFromYear y =
     365 * (y - 1970) + (y - 1969) div 4 - (y - 1901) div 100 + (y - 1601) div 400"

definition YearFromTime :: "int \<Rightarrow> int" where
  "YearFromTime t =
     (let d = Day t;
          y = 1970 + (400 * d) div 146097
      in if DayFromYear (y + 1) \<le> d then y + 1
         else if d < DayFromYear y then y - 1
         else y)"

definition leapDays :: "int \<Rightarrow> int" where
  "leapDays y = (if DaysInYear y = 365 then 0 else 1)"

definition InLeapYear :: "int \<Rightarrow> int" where
  "InLeapYear t = leapDays (YearFromTime t)"

definition DayWithinYear :: "int \<Rightarrow> int" where
  "DayWithinYear t = Day t - DayFromYear (YearFromTime t)"

definition daysBeforeMonth :: "int \<Rightarrow> int \<Rightarrow> int" where
  \<comment> \<open>the days of the year before month \<open>m\<close>, in a year with \<open>l\<close> leap days\<close>
  "daysBeforeMonth m l =
     (if m = 0 then 0 else if m = 1 then 31 else if m = 2 then 59 + l
      else if m = 3 then 90 + l else if m = 4 then 120 + l else if m = 5 then 151 + l
      else if m = 6 then 181 + l else if m = 7 then 212 + l else if m = 8 then 243 + l
      else if m = 9 then 273 + l else if m = 10 then 304 + l else 334 + l)"

definition MonthFromTime :: "int \<Rightarrow> int" where
  "MonthFromTime t =
     (let d = DayWithinYear t; l = InLeapYear t
      in if d < 31 then 0 else if d < 59 + l then 1 else if d < 90 + l then 2
         else if d < 120 + l then 3 else if d < 151 + l then 4 else if d < 181 + l then 5
         else if d < 212 + l then 6 else if d < 243 + l then 7 else if d < 273 + l then 8
         else if d < 304 + l then 9 else if d < 334 + l then 10 else 11)"

definition DateFromTime :: "int \<Rightarrow> int" where
  "DateFromTime t = DayWithinYear t - daysBeforeMonth (MonthFromTime t) (InLeapYear t) + 1"

definition HourFromTime :: "int \<Rightarrow> int" where
  "HourFromTime t = (t div msPerHour) mod 24"

definition MinFromTime :: "int \<Rightarrow> int" where
  "MinFromTime t = (t div msPerMinute) mod 60"

definition SecFromTime :: "int \<Rightarrow> int" where
  "SecFromTime t = (t div msPerSecond) mod 60"

definition msFromTime :: "int \<Rightarrow> int" where
  "msFromTime t = t mod msPerSecond"

text \<open>
  \<open>MakeDay\<close> is the day number of the first day of the month, plus the day of the month
  less one. It takes any integer as day of the month: day 0 is the last day of the month
  before, and so on downwards.
\<close>

definition MakeDay :: "int \<Rightarrow> int \<Rightarrow> int \<Rightarrow> int" where
  "MakeDay year mon dt =
     (let ym = year + mon div 12;
          mn = mon mod 12
      in DayFromYear ym + daysBeforeMonth mn (leapDays ym) + dt - 1)"

definition MakeDate :: "int \<Rightarrow> int \<Rightarrow> int" where
  "MakeDate dy tm = dy * msPerDay + tm"

text \<open>
  The time zone of the host is \<open>LocalTZA(t, isUTC)\<close>: the offset of local time from UTC
  in milliseconds, at the UTC time value \<open>t\<close> when \<open>isUTC\<close> holds and at the local time
  value \<open>t\<close> otherwise. It is an input of the model.
\<close>

type_synonym LocalTZA = "int \<Rightarrow> bool \<Rightarrow> int"

definition LocalTime :: "LocalTZA \<Rightarrow> int \<Rightarrow> int" where
  "LocalTime tza t = t + tza t True"

definition UTC :: "LocalTZA \<Rightarrow> int \<Rightarrow> int" where
  "UTC tza t = t - tza t False"

definition getDate :: "LocalTZA \<Rightarrow> int \<Rightarrow> int" where
  "getDate tza t = DateFromTime (LocalTime tza t)"

definition setDate :: "LocalTZA \<Rightarrow> int \<Rightarrow> int \<Rightarrow> int" where
  "setDate tza t dt =
     (let tl = LocalTime tza t;
          newDate = MakeDate (MakeDay (YearFromTime tl) (MonthFromTime tl) dt) (TimeWithinDay tl)
      in UTC tza newDate)"

definition digit :: "int \<Rightarrow> char" where
  "digit n = ''0123456789'' ! nat n"

definition pad2 :: "int \<Rightarrow> string" where
  "pad2 n = [digit (n div 10 mod 10), digit (n mod 10)]"

definition pad3 :: "int \<Rightarrow> string" where
  "pad3 n = digit (n div 100 mod 10) # pad2 n"

definition pad4 :: "int \<Rightarrow> string" where
  "pad4 n = digit (n div 1000 mod 10) # pad3 n"

definition pad6 :: "int \<Rightarrow> string" where
  "pad6 n = digit (n div 100000 mod 10) # digit (n div 10000 mod 10) # pad4 n"

definition isoYear :: "int \<Rightarrow> string" where
  \<comment> \<open>four digits from year 0 to 9999, a sign and six digits outside\<close>
  "isoYear y =
     (if 0 \<le> y \<and> y \<le> 9999 then pad4 y
      else if y < 0 then CHR ''-'' # pad6 (- y)
      else CHR ''+'' # pad6 y)"

definition toISOString :: "int \<Rightarrow> string" where
  "toISOString t =
     isoYear (YearFromTime t) @ ''-'' @ pad2 (MonthFromTime t + 1) @ ''-'' @ pad2 (DateFromTime t)
     @ ''T'' @ pad2 (HourFromTime t) @ '':'' @ pad2 (MinFromTime t) @ '':'' @ pad2 (SecFromTime t)
     @ ''.'' @ pad3 (msFromTime t) @ ''Z''"

definition beforeT :: "string \<Rightarrow> string" where
  \<comment> \<open>\<^verbatim>\<open>s.split('T')[0]\<close>\<close>
  "beforeT s = takeWhile (\<lambda>c. c \<noteq> CHR ''T'') s"

text \<open>
  Lines 99 to 104:
  \<^verbatim>\<open>Array.from({ length: 7 }, (_, i) => { const date = new Date(now);
  date.setDate(date.getDate() - i); return date.toISOString().split('T')[0]; }).reverse()\<close>.
  \<open>getDate\<close> and \<open>setDate\<close> work in local time, \<open>toISOString\<close> prints UTC.
\<close>

definition dayBefore :: "LocalTZA \<Rightarrow> int \<Rightarrow> nat \<Rightarrow> string" where
  \<comment> \<open>the callback of \<open>Array.from\<close>, at index \<open>i\<close>\<close>
  "dayBefore tza now i = beforeT (toISOString (setDate tza now (getDate tza now - int i)))"

definition last7Days :: "LocalTZA \<Rightarrow> int \<Rightarrow> string list" where
  "last7Days tza now = rev (map (dayBefore tza now) [0..<7])"

text \<open>
  Two hosts. The first keeps UTC. The second is Europe/Berlin in 2024: one hour ahead
  of UTC, and two hours from 2024-03-31T01:00Z to 2024-10-27T01:00Z. A local time that
  the change to summer time skips is read with the offset before the change, a local
  time that the change back repeats is read as the earlier one.
\<close>

definition tzUTC :: LocalTZA where
  "tzUTC t isUTC = 0"

definition tzBerlin2024 :: LocalTZA where
  "tzBerlin2024 t isUTC =
     (let shift = (if isUTC then msPerHour else 3 * msPerHour)
      in if 19813 * msPerDay + shift \<le> t \<and> t < 20023 * msPerDay + shift
         then 2 * msPerHour else msPerHour)"

section \<open>The dashboard hook\<close>

text \<open>
  The state of \<^verbatim>\<open>useDashboardData\<close> (lines 24 to 33) and the gateway it queries. A query
  of the gateway answers \<^verbatim>\<open>{ data, error }\<close>: an error (\<open>Inl\<close>), or the rows, which
  may be \<open>null\<close> (\<open>Inr None\<close>). The queries \<open>fetchData\<close> sends are recorded in the order
  they are sent.
\<close>

record 'a hook_state =
  data :: "'a DashboardData"
  loading :: bool
  error :: "string option"

datatype pg_error = PgError (message: string)

record 'a gateway =
  select_projects :: "string \<Rightarrow> pg_error + 'a project list option"
  select_transactions :: "string list \<Rightarrow> pg_error + 'a transaction list option"

datatype query =
  SelectProjectsOfUser string
| SelectTransactionsOfProjects "string list"

definition emptyData :: "('a::zero) DashboardData" where
  "emptyData =
     \<lparr> totalPortfolioBalance = 0, totalProjects = 0, projectsSummary = [], dailyStats = [],
       weeklyStats = [], monthlyStats = [] \<rparr>"

text \<open>
  Lines 130 to 134: \<^verbatim>\<open>catch (err) { setError(err.message || dflt) } finally
  { setLoading(false) }\<close>. An empty message stands for a missing one too.
\<close>

definition orDefault :: "string \<Rightarrow> string \<Rightarrow> string" where
  "orDefault s dflt = (if s = [] then dflt else s)"

definition caught :: "'a hook_state \<Rightarrow> pg_error \<Rightarrow> 'a hook_state" where
  "caught s err =
     s\<lparr> error := Some (orDefault (message err) ''Failed to load dashboard data''),
        loading := False \<rparr>"

text \<open>Lines 72 to 129: the snapshot that \<open>setData\<close> receives once both queries answered.\<close>

definition computedData ::
  "LocalTZA \<Rightarrow> int \<Rightarrow> ('a::{zero,plus,minus}) project list \<Rightarrow> 'a transaction list option
    \<Rightarrow> 'a DashboardData" where
  "computedData tza now projects transactions =
     (let summaries = projectsSummaryOf projects transactions;
          balance = totalPortfolioBalanceOf summaries;
          stats = dailyStatsOf (last7Days tza now) transactions
      in \<lparr> totalPortfolioBalance = balance,
           totalProjects = length projects,
           projectsSummary = summaries,
           dailyStats = stats,
           weeklyStats = [],
           monthlyStats = [] \<rparr>)"

text \<open>
  Lines 38 to 135, for a signed-in user (line 36 returns before \<open>fetchData\<close> exists
  otherwise). The result is the state after the last \<open>set...\<close> call and the queries sent.
\<close>

definition fetchData ::
  "('a::{zero,plus,minus}) gateway \<Rightarrow> LocalTZA \<Rightarrow> int \<Rightarrow> string \<Rightarrow> 'a hook_state
    \<Rightarrow> 'a hook_state \<times> query list" where
  "fetchData supabase tza now userId s0 =
     (let s1 = s0\<lparr> loading := True, error := None \<rparr>;
          q1 = SelectProjectsOfUser userId
      in case select_projects supabase userId of
           Inl projectsError \<Rightarrow> (caught s1 projectsError, [q1])
         | Inr None \<Rightarrow> (s1\<lparr> data := emptyData, loading := False \<rparr>, [q1])
         | Inr (Some projects) \<Rightarrow>
             if length projects = 0 then (s1\<lparr> data := emptyData, loading := False \<rparr>, [q1])
             else
               let projectIds = map p_id projects;
                   q2 = SelectTransactionsOfProjects projectIds
               in case select_transactions supabase projectIds of
                    Inl transactionsError \<Rightarrow> (caught s1 transactionsError, [q1, q2])
                  | Inr transactions \<Rightarrow>
                      (s1\<lparr> data := computedData tza now projects transactions,
                           loading := False \<rparr>, [q1, q2]))"

section \<open>The two forms\<close>













section \<open>The summary in the words of the specification\<close>

text \<open>
  The specification's contract for a summary: filter the transactions to those of the
  project, and sum the amounts of one kind. \<open>matchingSum\<close> is that sum, with one filter
  and the library's \<open>sum_list\<close>; the theorems compare the code's nested filters and left
  folds with it. \<open>rowsOf\<close> reads a query's \<open>null\<close> as no rows.
\<close>

definition rowsOf :: "'t list option \<Rightarrow> 't list" where
  "rowsOf rows = (case rows of None \<Rightarrow> [] | Some ts \<Rightarrow> ts)"




section \<open>A decimal reading of parseFloat\<close>









section \<open>Sample data\<close>

text \<open>
  Rows with whole amounts, for the concrete instances below: a project by identifier and
  name, a transaction by project, kind, amount and date.
\<close>

definition mkProject :: "string \<Rightarrow> string \<Rightarrow> int project" where
  "mkProject pid nm =
     \<lparr> p_id = pid, p_user_id = ''u1'', p_name = nm, p_location = ''Pune'',
       p_project_type = ''Commercial'', p_base_contract_amount = 0,
       p_created_at = ''2024-01-01T00:00:00Z'', p_updated_at = ''2024-01-01T00:00:00Z'' \<rparr>"

definition mkTransaction :: "string \<Rightarrow> transaction_type \<Rightarrow> int \<Rightarrow> string \<Rightarrow> int transaction" where
  "mkTransaction pid k a d =
     \<lparr> t_id = ''t'', t_project_id = pid, t_type = k, t_amount = a, t_description = ''entry'',
       t_transaction_date = d, t_category = [], t_created_at = ''2024-01-01T00:00:00Z'' \<rparr>"

definition office :: "int project" where
  "office = mkProject ''p1'' ''Downtown Office''"

definition depot :: "int project" where
  "depot = mkProject ''p2'' ''Depot''"

definition officeLedger :: "int transaction list" where
  "officeLedger =
     [mkTransaction ''p1'' Credit 5000 ''2024-04-01'',
      mkTransaction ''p1'' Debit 1200 ''2024-04-01'',
      mkTransaction ''p1'' Debit 300 ''2024-03-30'']"

text \<open>
  A store that answers the two queries from its rows, the state of the hook before the
  first fetch (lines 24 to 33), two clock readings (the first is
  2024-04-01T23:30:00.000Z), a gateway that accepts every insert, and two filled forms.
\<close>

definition sampleGateway :: "int project list \<Rightarrow> int transaction list \<Rightarrow> int gateway" where
  "sampleGateway ps ts =
     \<lparr> select_projects = (\<lambda>uid. Inr (Some (filter (\<lambda>p. p_user_id p = uid) ps))),
       select_transactions = (\<lambda>ids. Inr (Some (filter (\<lambda>t. t_project_id t \<in> set ids) ts))) \<rparr>"

definition initialState :: "('a::zero) hook_state" where
  "initialState = \<lparr> data = emptyData, loading = True, error = None \<rparr>"

definition aprilEvening :: int where
  "aprilEvening = 1712014200000"

definition octoberNight :: int where
  \<comment> \<open>2024-10-28T00:30:00.000Z\<close>
  "octoberNight = 1730075400000"




section \<open>Sums\<close>

lemma foldl_plus_sum_list:
  fixes a :: "'a::monoid_add"
  shows "foldl (\<lambda>sum x. sum + f x) a xs = a + sum_list (map f xs)"
  by (induction xs arbitrary: a) (simp_all add: add.assoc)

lemma sumOfType_sum_list:
  fixes xs :: "('a::monoid_add) transaction list"
  shows "sumOfType k xs = sum_list (map t_amount (filter (\<lambda>t. t_type t = k) xs))"
  by (simp add: sumOfType_def foldl_plus_sum_list)

lemma filterOrEmpty_rowsOf: "filterOrEmpty pred rows = filter pred (rowsOf rows)"
  by (simp add: filterOrEmpty_def rowsOf_def split: option.split)









lemmas sample_defs =
  office_def depot_def officeLedger_def mkProject_def mkTransaction_def

section \<open>The summary of a project\<close>



section \<open>The portfolio balance\<close>




section \<open>The seven days\<close>

lemma dailyStats_of_last7Days:
  "map date (dailyStats (computedData tza now ps rows)) = last7Days tza now
   \<and> length (dailyStats (computedData tza now ps rows)) = 7"
  by (simp add: computedData_def Let_def dailyStatsOf_def dailyStatOf_def comp_def last7Days_def)

lemma int_div_bounds:
  fixes x k :: int
  assumes "0 < k"
  shows "k * (x div k) \<le> x" and "x < k * (x div k) + k"
proof -
  have "x = k * (x div k) + x mod k" by simp
  moreover have "0 \<le> x mod k" "x mod k < k" using assms by simp_all
  ultimately show "k * (x div k) \<le> x" and "x < k * (x div k) + k" by linarith+
qed

text \<open>
  The year found by \<open>YearFromTime\<close> is the year of the specification: its first day is
  not after the day of the time value, and the first day of the next year is.
\<close>

lemma DayFromYear_bounds:
  "146097 * (y - 1970) - 607 < 400 * DayFromYear y"
  "400 * DayFromYear y \<le> 146097 * (y - 1970) + 593"
proof -
  define a where "a = (y - 1969) div 4"
  define b where "b = (y - 1901) div 100"
  define c where "c = (y - 1601) div 400"
  have A: "4 * a \<le> y - 1969" "y - 1969 < 4 * a + 4"
    unfolding a_def by (rule int_div_bounds; simp)+
  have B: "100 * b \<le> y - 1901" "y - 1901 < 100 * b + 100"
    unfolding b_def by (rule int_div_bounds; simp)+
  have C: "400 * c \<le> y - 1601" "y - 1601 < 400 * c + 400"
    unfolding c_def by (rule int_div_bounds; simp)+
  have D: "DayFromYear y = 365 * (y - 1970) + a - b + c"
    by (simp add: DayFromYear_def a_def b_def c_def)
  show "146097 * (y - 1970) - 607 < 400 * DayFromYear y"
    using A B C unfolding D by (simp add: algebra_simps)
  show "400 * DayFromYear y \<le> 146097 * (y - 1970) + 593"
    using A B C unfolding D by (simp add: algebra_simps)
qed

lemma YearFromTime_spec:
  "DayFromYear (YearFromTime t) \<le> Day t \<and> Day t < DayFromYear (YearFromTime t + 1)"
proof -
  define d where "d = Day t"
  define e where "e = (400 * d) div 146097"
  have E: "146097 * e \<le> 400 * d" "400 * d < 146097 * e + 146097"
    unfolding e_def by (rule int_div_bounds; simp)+
  have Y: "YearFromTime t =
     (if DayFromYear (1970 + e + 1) \<le> d then 1970 + e + 1
      else if d < DayFromYear (1970 + e) then 1970 + e - 1 else 1970 + e)"
    by (simp add: YearFromTime_def Let_def d_def e_def)
  have up: "d < DayFromYear (1970 + e + 2)"
    using DayFromYear_bounds(1) [of "1970 + e + 2"] E by (simp add: algebra_simps)
  have low: "DayFromYear (1970 + e - 1) \<le> d"
    using DayFromYear_bounds(2) [of "1970 + e - 1"] E by (simp add: algebra_simps)
  show ?thesis
    unfolding Y d_def [symmetric]
    using up low by (auto simp: algebra_simps)
qed

text \<open>
  Setting the day of the month to the present one less \<open>i\<close> moves the local time value
  back by \<open>i\<close> days. On a host whose offset from UTC never changes, the seven strings are
  therefore the UTC dates of the clock reading and of the six instants one day apart
  before it, which fall on the six days before the clock reading's day.
\<close>

lemma MonthFromTime_range: "0 \<le> MonthFromTime t \<and> MonthFromTime t \<le> 11"
  by (simp add: MonthFromTime_def Let_def)

lemma MakeDay_of_fields:
  "MakeDay (YearFromTime t) (MonthFromTime t) (DateFromTime t - i) = Day t - i"
proof -
  have "MonthFromTime t div 12 = 0" "MonthFromTime t mod 12 = MonthFromTime t"
    using MonthFromTime_range [of t] by simp_all
  then show ?thesis
    by (simp add: MakeDay_def Let_def DateFromTime_def DayWithinYear_def InLeapYear_def)
qed

lemma setDate_constant_offset:
  assumes "\<forall>t b. tza t b = c"
  shows "setDate tza now (getDate tza now - i) = now - i * msPerDay"
proof -
  have "MakeDate (Day (now + c) - i) (TimeWithinDay (now + c)) = now + c - i * msPerDay"
    by (simp add: MakeDate_def Day_def TimeWithinDay_def algebra_simps)
  then show ?thesis
    using assms by (simp add: setDate_def getDate_def Let_def LocalTime_def UTC_def MakeDay_of_fields)
qed

lemma Day_days_back: "Day (now - k * msPerDay) = Day now - k"
  by (simp add: Day_def msPerDay_def)

lemma last7Days_constant_offset:
  assumes "\<forall>t b. tza t b = c"
  shows "last7Days tza now =
           map (\<lambda>k. beforeT (toISOString (now - k * msPerDay))) [6, 5, 4, 3, 2, 1, 0]"
proof -
  have "dayBefore tza now i = beforeT (toISOString (now - int i * msPerDay))" for i
    by (simp add: dayBefore_def setDate_constant_offset [OF assms])
  then show ?thesis
    by (simp add: last7Days_def upt_rec)
qed

text \<open>The two changes of the Berlin offset in 2024, as \<open>toISOString\<close> prints them.\<close>

lemma tzBerlin2024_changes:
  "toISOString (19813 * msPerDay + msPerHour) = ''2024-03-31T01:00:00.000Z''"
  "toISOString (20023 * msPerDay + msPerHour) = ''2024-10-27T01:00:00.000Z''"
  by code_simp+

text \<open>
  Claim C3 does not hold of the code on a host whose offset from UTC changes inside the
  window. \<open>getDate\<close> and \<open>setDate\<close> step back by local calendar days and keep the local
  time of day, \<open>toISOString\<close> prints the UTC date. In Berlin, at 2024-04-01T23:30Z (01:30
  local time on 2 April), the day two days back is read at 01:30 before the change to
  summer time, which is 00:30Z on 31 March, and the day one day back is 23:30Z on
  31 March: the list names 31 March twice and holds six distinct days. At
  2024-10-28T00:30Z the list skips 27 October. The same readings on a host that keeps UTC
  give seven consecutive days; there are seven entries in every case.
\<close>

theorem last7Days_Berlin_repeats_and_skips:
  "toISOString aprilEvening = ''2024-04-01T23:30:00.000Z''
   \<and> last7Days tzBerlin2024 aprilEvening =
       [''2024-03-27'', ''2024-03-28'', ''2024-03-29'', ''2024-03-30'',
        ''2024-03-31'', ''2024-03-31'', ''2024-04-01'']
   \<and> last7Days tzUTC aprilEvening =
       [''2024-03-26'', ''2024-03-27'', ''2024-03-28'', ''2024-03-29'',
        ''2024-03-30'', ''2024-03-31'', ''2024-04-01'']
   \<and> toISOString octoberNight = ''2024-10-28T00:30:00.000Z''
   \<and> last7Days tzBerlin2024 octoberNight =
       [''2024-10-21'', ''2024-10-22'', ''2024-10-23'', ''2024-10-24'',
        ''2024-10-25'', ''2024-10-26'', ''2024-10-28'']"
  by code_simp

section \<open>The fetch\<close>

lemma fetchData_empty:
  "select_projects supabase userId = Inr (Some []) \<or> select_projects supabase userId = Inr None \<Longrightarrow>
   fetchData supabase tza now userId s0 =
     (s0\<lparr> data := emptyData, loading := False, error := None \<rparr>, [SelectProjectsOfUser userId])"
  by (auto simp: fetchData_def Let_def)

lemma fetchData_computed:
  "select_projects supabase userId = Inr (Some ps) \<Longrightarrow> ps \<noteq> [] \<Longrightarrow>
   select_transactions supabase (map p_id ps) = Inr rows \<Longrightarrow>
   fetchData supabase tza now userId s0 =
     (s0\<lparr> data := computedData tza now ps rows, loading := False, error := None \<rparr>,
      [SelectProjectsOfUser userId, SelectTransactionsOfProjects (map p_id ps)])"
  by (auto simp: fetchData_def Let_def)

text \<open>
  Claim C4. When the project query answers the empty list (or \<open>null\<close>), the snapshot set
  is all zero and empty, the two unused series included, and the only query sent is the
  project query: the transaction query is never sent.
\<close>

theorem empty_projects_short_circuit:
  assumes "select_projects supabase userId = Inr (Some [])
           \<or> select_projects supabase userId = Inr None"
  shows "fst (fetchData supabase tza now userId s0) =
           s0\<lparr> data := \<lparr> totalPortfolioBalance = 0, totalProjects = 0, projectsSummary = [],
                          dailyStats = [], weeklyStats = [], monthlyStats = [] \<rparr>,
                loading := False, error := None \<rparr>
         \<and> snd (fetchData supabase tza now userId s0) = [SelectProjectsOfUser userId]"
  using fetchData_empty [OF assms] by (simp add: emptyData_def)

theorem empty_projects_short_circuit_witness:
  "select_projects (sampleGateway [] officeLedger) ''u1'' = Inr (Some [])
   \<and> data (fst (fetchData (sampleGateway [] officeLedger) tzUTC aprilEvening ''u1'' initialState)) =
        \<lparr> totalPortfolioBalance = 0, totalProjects = 0, projectsSummary = [],
          dailyStats = [], weeklyStats = [], monthlyStats = [] \<rparr>
   \<and> snd (fetchData (sampleGateway [] officeLedger) tzUTC aprilEvening ''u1'' initialState)
       = [SelectProjectsOfUser ''u1'']"
proof -
  have h: "select_projects (sampleGateway [] officeLedger) ''u1'' = Inr (Some [])"
    by (simp add: sampleGateway_def)
  show ?thesis
    using empty_projects_short_circuit
      [of "sampleGateway [] officeLedger" "''u1''" tzUTC aprilEvening initialState] h
    by simp
qed

text \<open>
  Claim C5. When the queries answer, the snapshot's \<open>totalProjects\<close> is the number of
  projects, and the summary list has one entry per project, in the order of the project
  list, each with its project's identifier, whether or not a transaction names the
  project.
\<close>

theorem one_summary_per_project:
  assumes "select_projects supabase userId = Inr (Some ps)"
    and "ps \<noteq> [] \<longrightarrow> select_transactions supabase (map p_id ps) = Inr rows"
  shows "totalProjects (data (fst (fetchData supabase tza now userId s0))) = length ps
       \<and> length (projectsSummary (data (fst (fetchData supabase tza now userId s0)))) = length ps
       \<and> map projectId (projectsSummary (data (fst (fetchData supabase tza now userId s0))))
           = map p_id ps"
proof (cases "ps = []")
  case True
  with assms(1) show ?thesis
    by (simp add: fetchData_empty emptyData_def)
next
  case False
  with assms have "fetchData supabase tza now userId s0 =
     (s0\<lparr> data := computedData tza now ps rows, loading := False, error := None \<rparr>,
      [SelectProjectsOfUser userId, SelectTransactionsOfProjects (map p_id ps)])"
    by (simp add: fetchData_computed)
  then show ?thesis
    by (simp add: computedData_def Let_def projectsSummaryOf_def summaryOf_def comp_def)
qed

theorem one_summary_per_project_witness:
  "select_projects (sampleGateway [office, depot] officeLedger) ''u1'' = Inr (Some [office, depot])
   \<and> select_transactions (sampleGateway [office, depot] officeLedger) (map p_id [office, depot])
       = Inr (Some officeLedger)
   \<and> totalProjects (data (fst (fetchData (sampleGateway [office, depot] officeLedger)
         tzUTC aprilEvening ''u1'' initialState))) = 2
   \<and> map projectId (projectsSummary (data (fst (fetchData (sampleGateway [office, depot] officeLedger)
         tzUTC aprilEvening ''u1'' initialState)))) = [''p1'', ''p2'']"
proof -
  have h1: "select_projects (sampleGateway [office, depot] officeLedger) ''u1''
            = Inr (Some [office, depot])"
    by (simp add: sampleGateway_def sample_defs)
  have h2: "select_transactions (sampleGateway [office, depot] officeLedger)
              (map p_id [office, depot]) = Inr (Some officeLedger)"
    by (simp add: sampleGateway_def sample_defs)
  show ?thesis
    using one_summary_per_project [OF h1, of "Some officeLedger" tzUTC aprilEvening initialState]
      h1 h2
    by (simp add: sample_defs)
qed




section \<open>Signs\<close>

lemma sumOfType_nonneg:
  fixes xs :: "('a::ordered_comm_monoid_add) transaction list"
  shows "\<forall>t\<in>set xs. 0 \<le> t_amount t \<Longrightarrow> 0 \<le> sumOfType k (filter P xs)"
  by (auto simp: sumOfType_sum_list intro!: sum_list_nonneg)

lemma sumOfType_filterOrEmpty_nonneg:
  fixes rows :: "('a::ordered_comm_monoid_add) transaction list option"
  shows "\<forall>t\<in>set (rowsOf rows). 0 \<le> t_amount t \<Longrightarrow> 0 \<le> sumOfType k (filterOrEmpty P rows)"
  by (simp add: filterOrEmpty_rowsOf sumOfType_nonneg)

text \<open>
  Claim C9. When the queries answer and no transaction has a negative amount, every
  entry of the summary list has \<open>totalCredits\<close> and \<open>totalDebits\<close> at least 0, and every
  daily entry has \<open>credits\<close> and \<open>debits\<close> at least 0. Amounts are ordered and added
  exactly. (A \<open>profit\<close> and the balance may be negative: the instance has \<open>profit\<close> -300.)
\<close>

theorem totals_nonnegative:
  fixes supabase :: "('a::ordered_ab_group_add) gateway"
  assumes "select_projects supabase userId = Inr (Some ps)"
    and "ps \<noteq> [] \<longrightarrow> select_transactions supabase (map p_id ps) = Inr rows"
    and "\<forall>t\<in>set (rowsOf rows). 0 \<le> t_amount t"
  shows "(\<forall>p\<in>set (projectsSummary (data (fst (fetchData supabase tza now userId s0)))).
            0 \<le> totalCredits p \<and> 0 \<le> totalDebits p)
       \<and> (\<forall>e\<in>set (dailyStats (data (fst (fetchData supabase tza now userId s0)))).
            0 \<le> credits e \<and> 0 \<le> debits e)"
proof (cases "ps = []")
  case True
  with assms(1) show ?thesis
    by (simp add: fetchData_empty emptyData_def)
next
  case False
  with assms have "fetchData supabase tza now userId s0 =
     (s0\<lparr> data := computedData tza now ps rows, loading := False, error := None \<rparr>,
      [SelectProjectsOfUser userId, SelectTransactionsOfProjects (map p_id ps)])"
    by (simp add: fetchData_computed)
  with assms(3) show ?thesis
    by (auto simp: computedData_def Let_def projectsSummaryOf_def summaryOf_def
        dailyStatsOf_def dailyStatOf_def sumOfType_filterOrEmpty_nonneg)
qed

theorem totals_nonnegative_witness:
  "select_projects (sampleGateway [depot] [mkTransaction ''p2'' Debit 300 ''2024-04-01'']) ''u1''
     = Inr (Some [depot])
   \<and> select_transactions (sampleGateway [depot] [mkTransaction ''p2'' Debit 300 ''2024-04-01''])
       (map p_id [depot]) = Inr (Some [mkTransaction ''p2'' Debit 300 ''2024-04-01''])
   \<and> list_all (\<lambda>t. 0 \<le> t_amount t) [mkTransaction ''p2'' Debit 300 ''2024-04-01'']
   \<and> list_all (\<lambda>p. 0 \<le> totalCredits p \<and> 0 \<le> totalDebits p)
        (projectsSummary (data (fst (fetchData
          (sampleGateway [depot] [mkTransaction ''p2'' Debit 300 ''2024-04-01''])
          tzUTC aprilEvening ''u1'' initialState))))
   \<and> list_all (\<lambda>e. 0 \<le> credits e \<and> 0 \<le> debits e)
        (dailyStats (data (fst (fetchData
          (sampleGateway [depot] [mkTransaction ''p2'' Debit 300 ''2024-04-01''])
          tzUTC aprilEvening ''u1'' initialState))))
   \<and> map profit (projectsSummary (data (fst (fetchData
          (sampleGateway [depot] [mkTransaction ''p2'' Debit 300 ''2024-04-01''])
          tzUTC aprilEvening ''u1'' initialState)))) = [- 300]"
proof -
  let ?ts = "[mkTransaction ''p2'' Debit 300 ''2024-04-01'']"
  let ?g = "sampleGateway [depot] ?ts"
  have h1: "select_projects ?g ''u1'' = Inr (Some [depot])"
    by (simp add: sampleGateway_def sample_defs)
  have h2: "select_transactions ?g (map p_id [depot]) = Inr (Some ?ts)"
    by (simp add: sampleGateway_def sample_defs)
  have h3: "\<forall>t\<in>set (rowsOf (Some ?ts)). 0 \<le> t_amount t"
    by (simp add: rowsOf_def sample_defs)
  have pr: "map profit (projectsSummary (data (fst (fetchData ?g tzUTC aprilEvening ''u1'' initialState))))
            = [- 300]"
    using fetchData_computed [OF h1 _ h2, of tzUTC aprilEvening initialState]
    by (simp add: computedData_def Let_def projectsSummaryOf_def summaryOf_def filterOrEmpty_def
        sumOfType_def sample_defs)
  show ?thesis
    using totals_nonnegative [OF h1 _ h3, of tzUTC aprilEvening initialState] h1 h2 h3 pr
    by (simp add: list_all_iff rowsOf_def)
qed


section \<open>Days and dates\<close>










section \<open>The validation of the two forms\<close>









end
